theory Spec2Isabelle
  imports Main "HOL-Library.AList"
begin

section \<open>FilePerUserClientData: a per-client dataset adapter\<close>

text \<open>
  A shallow embedding of \<^verbatim>\<open>tensorflow_federated/python/simulation/file_per_user_client_data.py\<close>.
  The class keeps a list of client ids and a function from a client id to a dataset. Its
  constructor probes the first client's dataset and keeps its \<^verbatim>\<open>output_types\<close> and
  \<^verbatim>\<open>output_shapes\<close>; \<^verbatim>\<open>create_tf_dataset_for_client\<close> rebuilds a client's dataset
  and compares its two signatures with the kept ones.

  Every collaborator call can have effects (it reads files), so the functions thread a
  world state of an arbitrary type \<open>'w\<close>: a call takes the world before and returns the
  world after, next to its result. Exceptions are values: the left summand of a sum.
\<close>

subsection \<open>Descriptors and nested structures\<close>

text \<open>
  Modelled from the spec: the leaf descriptors of the tensor runtime, which is not part of
  this repository. A leaf of \<^verbatim>\<open>output_types\<close> is an element-type tag, a leaf of
  \<^verbatim>\<open>output_shapes\<close> is a shape descriptor: a list of dimensions, each a known size or
  the wildcard placeholder "size not statically known". The wildcard is an opaque
  placeholder that carries no value. Python's \<^verbatim>\<open>x != y\<close> on two leaves is modelled as
  inequality of these descriptor values; the subsection on the leaf comparison below
  gives the same functions with the comparison as a parameter.
\<close>

datatype dimension = Known nat | Wildcard

datatype leaf = DType string | TensorShape "dimension list"

text \<open>
  Modelled from the spec: the nested structures handled by \<^verbatim>\<open>tensorflow.python.util.nest\<close>,
  which is not part of this repository. A structure is a leaf or a container of
  structures, in order.
\<close>

datatype 'a nested = Leaf 'a | Seq "'a nested list"

text \<open>
  Modelled from the spec: \<^verbatim>\<open>nest.assert_same_structure\<close>. Two structures have the same
  nesting structure when they have the same container arity and nesting depth at every
  position; the function raises otherwise. Here it is the test, and the caller raises.
\<close>

fun same_structure :: "'a nested \<Rightarrow> 'a nested \<Rightarrow> bool"
  and same_structure_list :: "'a nested list \<Rightarrow> 'a nested list \<Rightarrow> bool" where
  "same_structure (Leaf _) (Leaf _) = True"
| "same_structure (Seq xs) (Seq ys) = same_structure_list xs ys"
| "same_structure (Leaf _) (Seq _) = False"
| "same_structure (Seq _) (Leaf _) = False"
| "same_structure_list [] [] = True"
| "same_structure_list (x # xs) (y # ys) = (same_structure x y \<and> same_structure_list xs ys)"
| "same_structure_list [] (_ # _) = False"
| "same_structure_list (_ # _) [] = False"

text \<open>
  Modelled from the spec: \<^verbatim>\<open>nest.flatten\<close>. The leaves of a structure in depth-first,
  left-to-right order.
\<close>

fun flatten :: "'a nested \<Rightarrow> 'a list"
  and flatten_list :: "'a nested list \<Rightarrow> 'a list" where
  "flatten (Leaf x) = [x]"
| "flatten (Seq ts) = flatten_list ts"
| "flatten_list [] = []"
| "flatten_list (t # ts) = flatten t @ flatten_list ts"

subsection \<open>Exceptions, callables and datasets\<close>

text \<open>
  Exceptions raised by collaborators: the conversion function, the directory listing and
  the dictionary lookup of the directory factory.
\<close>

datatype py_exception =
    KeyError string
  | NotCallableError
  | OSError string
  | Exception string

text \<open>
  What the class can raise. The first three are the constructor's argument errors
  (the spec's \<^verbatim>\<open>InvalidArgument\<close>): the \<^verbatim>\<open>TypeError\<close> of \<^verbatim>\<open>py_typecheck.check_type\<close>,
  the \<^verbatim>\<open>ValueError\<close> of the emptiness test, and the \<^verbatim>\<open>TypeError\<close> of
  \<^verbatim>\<open>py_typecheck.check_callable\<close>. \<open>StructureError\<close> is what
  \<^verbatim>\<open>nest.assert_same_structure\<close> raises. \<open>ShapeMismatch x y id\<close> is the
  \<^verbatim>\<open>ValueError('{x} != {y} for client with id [{id}]')\<close> of the leaf comparison.
  \<open>Propagated e\<close> is an exception of a collaborator that passes through uncaught.
\<close>

datatype 'id error =
    TypeError_check_type
  | ValueError_no_client_ids
  | TypeError_check_callable
  | StructureError
  | ShapeMismatch leaf leaf 'id
  | Propagated py_exception

fun InvalidArgument :: "'id error \<Rightarrow> bool" where
  "InvalidArgument TypeError_check_type = True"
| "InvalidArgument ValueError_no_client_ids = True"
| "InvalidArgument TypeError_check_callable = True"
| "InvalidArgument _ = False"

text \<open>
  A dataset handle: the two signatures the class reads, and the rest of the object
  (\<open>contents\<close>), which the class never looks at.
\<close>

record 'p tf_dataset =
  contents :: 'p
  tf_output_types :: "leaf nested"
  tf_output_shapes :: "leaf nested"

text \<open>
  A Python object passed where a callable is expected. Calling an object that is not
  callable raises.
\<close>

datatype ('a, 'r, 'w) py_callable =
    Callable "'a \<Rightarrow> 'w \<Rightarrow> (py_exception + 'r) \<times> 'w"
  | NotCallable

fun call :: "('a, 'r, 'w) py_callable \<Rightarrow> 'a \<Rightarrow> 'w \<Rightarrow> (py_exception + 'r) \<times> 'w" where
  "call (Callable f) x w = f x w"
| "call NotCallable x w = (Inl NotCallableError, w)"

text \<open>A Python object passed as \<^verbatim>\<open>client_ids\<close>: a list, a tuple, or anything else.\<close>

datatype 'id py_object = PyList "'id list" | PyTuple "'id list" | PyOther

text \<open>
  Modelled from the spec: \<^verbatim>\<open>py_typecheck.check_type(target, list)\<close> and
  \<^verbatim>\<open>py_typecheck.check_callable(target)\<close>, which live in another module of the
  repository. The first fails unless the target is of the list kind, the second unless
  the target is callable.
\<close>

fun check_type_list :: "'id py_object \<Rightarrow> 'id error + 'id list" where
  "check_type_list (PyList ids) = Inr ids"
| "check_type_list _ = Inl TypeError_check_type"

fun check_callable :: "('a, 'r, 'w) py_callable \<Rightarrow> 'id error + unit" where
  "check_callable (Callable _) = Inr ()"
| "check_callable NotCallable = Inl TypeError_check_callable"

subsection \<open>The class\<close>

record ('id, 'p, 'w) FilePerUserClientData =
  self_client_ids :: "'id list"
  self_create_tf_dataset_fn :: "('id, 'p tf_dataset, 'w) py_callable"
  self_output_types :: "leaf nested"
  self_output_shapes :: "leaf nested"

text \<open>
  \<^verbatim>\<open>__init__\<close>: the argument checks in the source's order, then the probe. The field
  \<open>self_client_ids\<close> is the content of the list at that moment; the list object itself
  stays shared with the caller, see the subsection on the shared list below.
\<close>

definition init ::
  "'id py_object \<Rightarrow> ('id, 'p tf_dataset, 'w) py_callable \<Rightarrow> 'w
    \<Rightarrow> ('id error + ('id, 'p, 'w) FilePerUserClientData) \<times> 'w" where
  "init client_ids create_tf_dataset_fn w =
     (case check_type_list client_ids of
        Inl e \<Rightarrow> (Inl e, w)
      | Inr ids \<Rightarrow>
          if ids = [] then (Inl ValueError_no_client_ids, w)
          else
            (case (check_callable create_tf_dataset_fn :: 'id error + unit) of
               Inl e \<Rightarrow> (Inl e, w)
             | Inr _ \<Rightarrow>
                 (case call create_tf_dataset_fn (ids ! 0) w of
                    (Inl e, w') \<Rightarrow> (Inl (Propagated e), w')
                  | (Inr tf_dataset, w') \<Rightarrow>
                      (Inr \<lparr> self_client_ids = ids,
                              self_create_tf_dataset_fn = create_tf_dataset_fn,
                              self_output_types = tf_output_types tf_dataset,
                              self_output_shapes = tf_output_shapes tf_dataset \<rparr>, w'))))"

text \<open>The read-only properties.\<close>

definition client_ids :: "('id, 'p, 'w) FilePerUserClientData \<Rightarrow> 'id list" where
  "client_ids self = self_client_ids self"

definition output_types :: "('id, 'p, 'w) FilePerUserClientData \<Rightarrow> leaf nested" where
  "output_types self = self_output_types self"

definition output_shapes :: "('id, 'p, 'w) FilePerUserClientData \<Rightarrow> leaf nested" where
  "output_shapes self = self_output_shapes self"

text \<open>
  The loop of \<^verbatim>\<open>_assert_nested_equal\<close> over \<^verbatim>\<open>zip(flat_x, flat_y)\<close>: it raises at the
  first pair of unequal leaves.
\<close>

fun assert_leaves_equal :: "'id \<Rightarrow> (leaf \<times> leaf) list \<Rightarrow> 'id error + unit" where
  "assert_leaves_equal client_id [] = Inr ()"
| "assert_leaves_equal client_id ((x, y) # ps) =
     (if x \<noteq> y then Inl (ShapeMismatch x y client_id)
      else assert_leaves_equal client_id ps)"

text \<open>\<^verbatim>\<open>_assert_nested_equal\<close>, the local function of \<^verbatim>\<open>create_tf_dataset_for_client\<close>.\<close>

definition assert_nested_equal :: "'id \<Rightarrow> leaf nested \<Rightarrow> leaf nested \<Rightarrow> 'id error + unit" where
  "assert_nested_equal client_id nested_x nested_y =
     (if \<not> same_structure nested_x nested_y then Inl StructureError
      else
        (let flat_x = flatten nested_x;
             flat_y = flatten nested_y
         in assert_leaves_equal client_id (zip flat_x flat_y)))"

text \<open>
  \<^verbatim>\<open>create_tf_dataset_for_client\<close>. The result is the returned dataset or the exception,
  the object \<^verbatim>\<open>self\<close> after the call, and the world after the call.
\<close>

definition create_tf_dataset_for_client ::
  "('id, 'p, 'w) FilePerUserClientData \<Rightarrow> 'id \<Rightarrow> 'w
    \<Rightarrow> ('id error + 'p tf_dataset) \<times> ('id, 'p, 'w) FilePerUserClientData \<times> 'w" where
  "create_tf_dataset_for_client self client_id w =
     (case call (self_create_tf_dataset_fn self) client_id w of
        (Inl e, w') \<Rightarrow> (Inl (Propagated e), self, w')
      | (Inr tf_dataset, w') \<Rightarrow>
          (case assert_nested_equal client_id (tf_output_types tf_dataset) (self_output_types self) of
             Inl e \<Rightarrow> (Inl e, self, w')
           | Inr _ \<Rightarrow>
               (case assert_nested_equal client_id (tf_output_shapes tf_dataset) (self_output_shapes self) of
                  Inl e \<Rightarrow> (Inl e, self, w')
                | Inr _ \<Rightarrow> (Inr tf_dataset, self, w'))))"

text \<open>
  \<^verbatim>\<open>create_from_dir\<close>. The directory listing and the path join belong to the operating
  system and are parameters. The dictionary comprehension inserts the filenames in listing
  order; a dictionary keeps a key where it was first inserted (the insertion order that
  Python guarantees from version 3.7 on), which is what
  \<open>AList.update\<close> does on an association list.
\<close>

definition client_ids_to_paths_dict ::
  "(string \<Rightarrow> string \<Rightarrow> string) \<Rightarrow> string \<Rightarrow> string list \<Rightarrow> (string \<times> string) list" where
  "client_ids_to_paths_dict os_path_join path filenames =
     foldl (\<lambda>d filename. AList.update filename (os_path_join path filename) d) [] filenames"

definition create_from_dir ::
  "(string \<Rightarrow> py_exception + string list) \<Rightarrow> (string \<Rightarrow> string \<Rightarrow> string) \<Rightarrow> string
    \<Rightarrow> (string, 'p tf_dataset, 'w) py_callable \<Rightarrow> 'w
    \<Rightarrow> (string error + (string, 'p, 'w) FilePerUserClientData) \<times> 'w" where
  "create_from_dir os_listdir os_path_join path create_tf_dataset_fn w =
     (case os_listdir path of
        Inl e \<Rightarrow> (Inl (Propagated e), w)
      | Inr filenames \<Rightarrow>
          (let d = client_ids_to_paths_dict os_path_join path filenames
           in init (PyList (map fst d))
                (Callable (\<lambda>id w. case map_of d id of
                                     None \<Rightarrow> (Inl (KeyError id), w)
                                   | Some p \<Rightarrow> call create_tf_dataset_fn p w))
                w))"

subsection \<open>The leaf comparison as a parameter\<close>




subsection \<open>The identifier list as a shared object\<close>



subsection \<open>Vocabulary of the properties\<close>

fun is_list :: "'id py_object \<Rightarrow> bool" where
  "is_list (PyList _) = True"
| "is_list _ = False"

fun callable :: "('a, 'r, 'w) py_callable \<Rightarrow> bool" where
  "callable (Callable _) = True"
| "callable NotCallable = False"

text \<open>
  A spy around a function with effects: the world gets a log, and every call appends its
  argument to the log before it returns. The log after a run is the sequence of calls the
  run made.
\<close>

definition recording ::
  "('a \<Rightarrow> 'w \<Rightarrow> 'r \<times> 'w) \<Rightarrow> 'a \<Rightarrow> 'a list \<times> 'w \<Rightarrow> 'r \<times> 'a list \<times> 'w" where
  "recording f x = (\<lambda>(calls, w). case f x w of (r, w') \<Rightarrow> (r, calls @ [x], w'))"

subsection \<open>A small directory to run the definitions on\<close>

text \<open>
  The directory \<^verbatim>\<open>dir\<close> holds \<^verbatim>\<open>a.rec\<close> and \<^verbatim>\<open>b.rec\<close>, the directory
  \<^verbatim>\<open>empty\<close> holds nothing, and no other directory exists. The parser below knows five files:
  \<^verbatim>\<open>a.rec\<close>, \<^verbatim>\<open>b.rec\<close> and \<^verbatim>\<open>c.rec\<close> hold \<^verbatim>\<open>int32\<close> records of shape \<^verbatim>\<open>[?, 3]\<close>,
  \<^verbatim>\<open>d.rec\<close> holds \<^verbatim>\<open>int32\<close> records of shape \<^verbatim>\<open>[?, 4]\<close>, and \<^verbatim>\<open>e.rec\<close> holds
  \<^verbatim>\<open>float32\<close> records of shape \<^verbatim>\<open>[?, 4]\<close>. Any other path fails to open. The world is the
  list of the paths the parser was asked to open.
\<close>

definition example_listdir :: "string \<Rightarrow> py_exception + string list" where
  "example_listdir path =
     (if path = ''dir'' then Inr [''a.rec'', ''b.rec'']
      else if path = ''empty'' then Inr []
      else Inl (OSError path))"

definition example_join :: "string \<Rightarrow> string \<Rightarrow> string" where
  "example_join path filename = path @ ''/'' @ filename"

definition example_dataset :: "string \<Rightarrow> string \<Rightarrow> nat \<Rightarrow> string tf_dataset" where
  "example_dataset p t n =
     \<lparr> contents = p,
       tf_output_types = Seq [Leaf (DType ''string''), Leaf (DType t)],
       tf_output_shapes = Seq [Leaf (TensorShape []), Leaf (TensorShape [Wildcard, Known n])] \<rparr>"

definition example_parse ::
  "string \<Rightarrow> string list \<Rightarrow> (py_exception + string tf_dataset) \<times> string list" where
  "example_parse p opened =
     (if p = ''dir/a.rec'' \<or> p = ''dir/b.rec'' \<or> p = ''dir/c.rec''
        then (Inr (example_dataset p ''int32'' 3), opened @ [p])
      else if p = ''dir/d.rec'' then (Inr (example_dataset p ''int32'' 4), opened @ [p])
      else if p = ''dir/e.rec'' then (Inr (example_dataset p ''float32'' 4), opened @ [p])
      else (Inl (OSError p), opened @ [p]))"

text \<open>The object that the constructor builds from the two paths of the directory.\<close>

definition example_adapter :: "(string, string, string list) FilePerUserClientData" where
  "example_adapter =
     \<lparr> self_client_ids = [''dir/a.rec'', ''dir/b.rec''],
       self_create_tf_dataset_fn = Callable example_parse,
       self_output_types = Seq [Leaf (DType ''string''), Leaf (DType ''int32'')],
       self_output_shapes = Seq [Leaf (TensorShape []), Leaf (TensorShape [Wildcard, Known 3])] \<rparr>"





section \<open>Properties\<close>

subsection \<open>Structure and leaves\<close>

lemma same_structure_refl: "same_structure (t :: 'a nested) t"
  and same_structure_list_refl: "same_structure_list (ts :: 'a nested list) ts"
  by (induction t and ts rule: flatten_flatten_list.induct) simp_all

lemma same_structure_length:
  "same_structure (x :: 'a nested) y \<Longrightarrow> length (flatten x) = length (flatten y)"
  "same_structure_list (xs :: 'a nested list) ys \<Longrightarrow>
     length (flatten_list xs) = length (flatten_list ys)"
  by (induction x y and xs ys rule: same_structure_same_structure_list.induct) simp_all

text \<open>A structure is determined by its nesting structure and its leaves.\<close>

lemma same_structure_flatten_eq:
  "same_structure (x :: 'a nested) y \<Longrightarrow> flatten x = flatten y \<Longrightarrow> x = y"
  "same_structure_list (xs :: 'a nested list) ys \<Longrightarrow> flatten_list xs = flatten_list ys \<Longrightarrow> xs = ys"
  by (induction x y and xs ys rule: same_structure_same_structure_list.induct)
     (auto dest: same_structure_length)

lemma assert_leaves_equal_same: "assert_leaves_equal client_id (zip xs xs) = Inr ()"
  by (induction xs) simp_all

lemma assert_leaves_equal_Inr:
  "length xs = length ys \<Longrightarrow> (assert_leaves_equal client_id (zip xs ys) = Inr ()) = (xs = ys)"
  by (induction xs ys rule: list_induct2) auto

text \<open>The loop stops at the first position where the two flat lists differ.\<close>

lemma assert_leaves_equal_first:
  "length xs = length ys \<Longrightarrow> xs \<noteq> ys \<Longrightarrow>
   \<exists>i < length xs. take i xs = take i ys \<and> xs ! i \<noteq> ys ! i \<and>
     assert_leaves_equal client_id (zip xs ys) = Inl (ShapeMismatch (xs ! i) (ys ! i) client_id)"
proof (induction xs ys rule: list_induct2)
  case Nil
  then show ?case by simp
next
  case (Cons x xs y ys)
  show ?case
  proof (cases "x = y")
    case False
    then have "take 0 (x # xs) = take 0 (y # ys) \<and> (x # xs) ! 0 \<noteq> (y # ys) ! 0 \<and>
      assert_leaves_equal client_id (zip (x # xs) (y # ys)) =
        Inl (ShapeMismatch ((x # xs) ! 0) ((y # ys) ! 0) client_id)"
      by simp
    then show ?thesis by blast
  next
    case True
    with Cons.prems have "xs \<noteq> ys" by simp
    from Cons.IH [OF this] obtain i where
      "i < length xs" "take i xs = take i ys" "xs ! i \<noteq> ys ! i"
      "assert_leaves_equal client_id (zip xs ys) = Inl (ShapeMismatch (xs ! i) (ys ! i) client_id)"
      by blast
    with True have "Suc i < length (x # xs) \<and> take (Suc i) (x # xs) = take (Suc i) (y # ys) \<and>
      (x # xs) ! Suc i \<noteq> (y # ys) ! Suc i \<and>
      assert_leaves_equal client_id (zip (x # xs) (y # ys)) =
        Inl (ShapeMismatch ((x # xs) ! Suc i) ((y # ys) ! Suc i) client_id)"
      by simp
    then show ?thesis by blast
  qed
qed

lemma assert_nested_equal_refl: "assert_nested_equal client_id t t = Inr ()"
  by (simp add: assert_nested_equal_def same_structure_refl assert_leaves_equal_same)

lemma assert_nested_equal_Inr_iff: "(assert_nested_equal client_id x y = Inr ()) = (x = y)"
  by (auto simp: assert_nested_equal_def same_structure_refl assert_leaves_equal_same
      assert_leaves_equal_Inr same_structure_length dest: same_structure_flatten_eq)

lemma assert_nested_equal_differ:
  "x \<noteq> y \<Longrightarrow> \<exists>e. assert_nested_equal client_id x y = Inl e"
  using assert_nested_equal_Inr_iff [of client_id x y]
  by (cases "assert_nested_equal client_id x y") auto

subsection \<open>The example object\<close>

lemma example_adapter_fields:
  "self_client_ids example_adapter = [''dir/a.rec'', ''dir/b.rec'']"
  "self_create_tf_dataset_fn example_adapter = Callable example_parse"
  "self_output_types example_adapter = Seq [Leaf (DType ''string''), Leaf (DType ''int32'')]"
  "self_output_shapes example_adapter = Seq [Leaf (TensorShape []), Leaf (TensorShape [Wildcard, Known 3])]"
  by (simp_all add: example_adapter_def)

section \<open>The claims\<close>

text \<open>
  C1. When the conversion function accepts an identifier and returns a dataset whose type
  and shape signatures equal the reference signatures kept by the object,
  \<^verbatim>\<open>create_tf_dataset_for_client\<close> returns that very dataset, unchanged. Nothing is
  asked of the identifier: it need not be one of the stored client ids.
\<close>

theorem matching_signature_returns_dataset:
  assumes "call (self_create_tf_dataset_fn self) client_id w = (Inr ds, w')"
    and "tf_output_types ds = output_types self"
    and "tf_output_shapes ds = output_shapes self"
  shows "create_tf_dataset_for_client self client_id w = (Inr ds, self, w')"
  using assms
  by (simp add: create_tf_dataset_for_client_def output_types_def output_shapes_def
      assert_nested_equal_refl)

theorem matching_signature_returns_dataset_witness:
  "''dir/c.rec'' \<notin> set (client_ids example_adapter) \<and>
   create_tf_dataset_for_client example_adapter ''dir/c.rec'' [] =
     (Inr (example_dataset ''dir/c.rec'' ''int32'' 3), example_adapter, [''dir/c.rec''])"
  using matching_signature_returns_dataset
    [of example_adapter "''dir/c.rec''" "[]" "example_dataset ''dir/c.rec'' ''int32'' 3" "[''dir/c.rec'']"]
  by (simp add: example_adapter_fields example_parse_def example_dataset_def
      client_ids_def output_types_def output_shapes_def)

text \<open>
  C2. The constructor fails with one of its argument errors (the spec's
  \<^verbatim>\<open>InvalidArgument\<close>) exactly when \<^verbatim>\<open>client_ids\<close> is not a list, or is the empty
  list, or the conversion function is not callable. So for a non-empty list and a callable
  the argument checks pass.
\<close>

theorem init_argument_errors:
  "(\<exists>e. fst (init cids fn w) = Inl e \<and> InvalidArgument e) =
     (\<not> is_list cids \<or> cids = PyList [] \<or> \<not> callable fn)"
  by (cases cids; cases fn)
     (auto simp: init_def split: prod.splits sum.splits)

theorem init_argument_errors_witness:
  "(\<exists>e. fst (init (PyList []) (Callable example_parse) []) = Inl e \<and> InvalidArgument e) \<and>
   (\<exists>e. fst (init (PyTuple [''dir/a.rec'']) (Callable example_parse) []) = Inl e \<and> InvalidArgument e) \<and>
   (\<exists>e. fst (init (PyList [''dir/a.rec'']) (NotCallable :: (string, string tf_dataset, string list) py_callable) []) = Inl e \<and> InvalidArgument e) \<and>
   \<not> (\<exists>e. fst (init (PyList [''dir/a.rec'']) (Callable example_parse) []) = Inl e \<and> InvalidArgument e) \<and>
   \<not> (\<exists>e. fst (init (PyList [''nowhere'']) (Callable example_parse) []) = Inl e \<and> InvalidArgument e)"
  using init_argument_errors [of "PyList []" "Callable example_parse" "[]"]
    init_argument_errors [of "PyTuple [''dir/a.rec'']" "Callable example_parse" "[]"]
    init_argument_errors [of "PyList [''dir/a.rec'']" "NotCallable :: (string, string tf_dataset, string list) py_callable" "[]"]
    init_argument_errors [of "PyList [''dir/a.rec'']" "Callable example_parse" "[]"]
    init_argument_errors [of "PyList [''nowhere'']" "Callable example_parse" "[]"]
  by simp

text \<open>
  C3. With a non-empty list and a callable, the constructor calls the conversion function
  once, on the first identifier: the world after construction is the world after that one
  call, and a spy around the function logs exactly that identifier. When the probe returns
  a dataset, the object is built and its properties \<^verbatim>\<open>output_types\<close> and
  \<^verbatim>\<open>output_shapes\<close> are the probe's signatures; when the probe raises, the constructor
  raises the same exception.
\<close>

theorem init_probes_first_client:
  assumes "ids \<noteq> []"
  shows "snd (init (PyList ids) (Callable f) w) = snd (f (ids ! 0) w) \<and>
         fst (snd (init (PyList ids) (Callable (recording f)) (calls, w))) = calls @ [ids ! 0] \<and>
         (\<forall>ds. fst (f (ids ! 0) w) = Inr ds \<longrightarrow>
           (\<exists>self. fst (init (PyList ids) (Callable f) w) = Inr self \<and>
              client_ids self = ids \<and>
              output_types self = tf_output_types ds \<and>
              output_shapes self = tf_output_shapes ds)) \<and>
         (\<forall>e. fst (f (ids ! 0) w) = Inl e \<longrightarrow>
           fst (init (PyList ids) (Callable f) w) = Inl (Propagated e))"
  using assms
  by (auto simp: init_def recording_def client_ids_def output_types_def output_shapes_def
      split: prod.splits sum.splits)

theorem init_probes_first_client_witness:
  "init (PyList [''dir/a.rec'', ''dir/b.rec'']) (Callable example_parse) [] =
     (Inr example_adapter, [''dir/a.rec'']) \<and>
   output_types example_adapter = Seq [Leaf (DType ''string''), Leaf (DType ''int32'')] \<and>
   output_shapes example_adapter =
     Seq [Leaf (TensorShape []), Leaf (TensorShape [Wildcard, Known 3])] \<and>
   fst (snd (init (PyList [''dir/a.rec'', ''dir/b.rec'']) (Callable (recording example_parse))
     ([], []))) = [''dir/a.rec''] \<and>
   init (PyList [''nowhere'', ''dir/b.rec'']) (Callable example_parse) [] =
     (Inl (Propagated (OSError ''nowhere'')), [''nowhere''])"
  using init_probes_first_client [of "[''dir/a.rec'', ''dir/b.rec'']" example_parse "[]" "[]"]
    init_probes_first_client [of "[''nowhere'', ''dir/b.rec'']" example_parse "[]" "[]"]
  by (simp add: init_def example_parse_def example_dataset_def example_adapter_def
      output_types_def output_shapes_def)

text \<open>
  C9. The constructor's checks run in a fixed order. An argument that is not a list fails
  the kind check whatever else holds, so an empty tuple raises the kind error and not the
  emptiness error. The emptiness test comes next, before the callable check. A conversion
  function that is not callable fails the callable check and is never called: the world is
  unchanged and the error is not the one that calling it would raise.
\<close>

theorem init_check_order:
  "(\<not> is_list cids \<longrightarrow> init cids fn w = (Inl TypeError_check_type, w)) \<and>
   init (PyTuple []) fn w = (Inl TypeError_check_type, w) \<and>
   init (PyList []) fn w = (Inl ValueError_no_client_ids, w) \<and>
   (ids \<noteq> [] \<longrightarrow> init (PyList ids) NotCallable w = (Inl TypeError_check_callable, w))"
  by (cases cids) (simp_all add: init_def)

theorem init_check_order_witness:
  "init (PyTuple []) (NotCallable :: (string, string tf_dataset, string list) py_callable) [] =
     (Inl TypeError_check_type, []) \<and>
   init PyOther (Callable example_parse) [] = (Inl TypeError_check_type, []) \<and>
   init (PyList []) (NotCallable :: (string, string tf_dataset, string list) py_callable) [] =
     (Inl ValueError_no_client_ids, []) \<and>
   init (PyList [''dir/a.rec'']) (NotCallable :: (string, string tf_dataset, string list) py_callable) [] =
     (Inl TypeError_check_callable, [])"
  using init_check_order [of "PyTuple []" "NotCallable :: (string, string tf_dataset, string list) py_callable" "[]" "[''dir/a.rec'']"]
    init_check_order [of PyOther "Callable example_parse" "[]" "[]"]
  by simp

text \<open>
  C10. The type signature is compared before the shape signature. When the client's type
  signature differs from the reference, \<^verbatim>\<open>create_tf_dataset_for_client\<close> raises what
  the comparison of the type signatures raises, whatever the shape signatures are: the
  structure error, or a mismatch that carries two leaves of the type signatures.
\<close>

theorem types_checked_before_shapes:
  assumes "call (self_create_tf_dataset_fn self) client_id w = (Inr ds, w')"
    and "tf_output_types ds \<noteq> output_types self"
  shows "\<exists>e. assert_nested_equal client_id (tf_output_types ds) (output_types self) = Inl e \<and>
           create_tf_dataset_for_client self client_id w = (Inl e, self, w') \<and>
           (e = StructureError \<or>
            (\<exists>i < length (flatten (tf_output_types ds)).
               e = ShapeMismatch (flatten (tf_output_types ds) ! i)
                     (flatten (output_types self) ! i) client_id))"
proof -
  let ?x = "tf_output_types ds" and ?y = "output_types self"
  from assert_nested_equal_differ [OF assms(2), of client_id]
  obtain e where e: "assert_nested_equal client_id ?x ?y = Inl e" ..
  have run: "create_tf_dataset_for_client self client_id w = (Inl e, self, w')"
    using assms(1) e by (simp add: create_tf_dataset_for_client_def output_types_def)
  have "e = StructureError \<or>
    (\<exists>i < length (flatten ?x). e = ShapeMismatch (flatten ?x ! i) (flatten ?y ! i) client_id)"
  proof (cases "same_structure ?x ?y")
    case False
    with e show ?thesis by (simp add: assert_nested_equal_def)
  next
    case True
    then have len: "length (flatten ?x) = length (flatten ?y)"
      by (rule same_structure_length)
    from True assms(2) have neq: "flatten ?x \<noteq> flatten ?y"
      using same_structure_flatten_eq(1) [of ?x ?y] by blast
    from assert_leaves_equal_first [OF len neq, of client_id] obtain i where
      i: "i < length (flatten ?x)" and
      m: "assert_leaves_equal client_id (zip (flatten ?x) (flatten ?y)) =
            Inl (ShapeMismatch (flatten ?x ! i) (flatten ?y ! i) client_id)"
      by blast
    from True have "assert_nested_equal client_id ?x ?y =
        assert_leaves_equal client_id (zip (flatten ?x) (flatten ?y))"
      by (simp add: assert_nested_equal_def)
    with e m have "e = ShapeMismatch (flatten ?x ! i) (flatten ?y ! i) client_id"
      by simp
    with i show ?thesis by blast
  qed
  with e run show ?thesis by blast
qed

theorem types_checked_before_shapes_witness:
  "create_tf_dataset_for_client example_adapter ''dir/e.rec'' [] =
     (Inl (ShapeMismatch (DType ''float32'') (DType ''int32'') ''dir/e.rec''),
      example_adapter, [''dir/e.rec'']) \<and>
   tf_output_shapes (example_dataset ''dir/e.rec'' ''float32'' 4) \<noteq> output_shapes example_adapter"
proof -
  let ?ds = "example_dataset ''dir/e.rec'' ''float32'' 4"
  have run: "call (self_create_tf_dataset_fn example_adapter) ''dir/e.rec'' [] = (Inr ?ds, [''dir/e.rec''])"
    by (simp add: example_adapter_fields example_parse_def)
  have types: "tf_output_types ?ds \<noteq> output_types example_adapter"
    by (simp add: example_adapter_fields example_dataset_def output_types_def)
  have shapes: "tf_output_shapes ?ds \<noteq> output_shapes example_adapter"
    by (simp add: example_adapter_fields example_dataset_def output_shapes_def)
  from types_checked_before_shapes [OF run types] obtain e where
    e: "assert_nested_equal ''dir/e.rec'' (tf_output_types ?ds) (output_types example_adapter) = Inl e"
    and r: "create_tf_dataset_for_client example_adapter ''dir/e.rec'' [] =
      (Inl e, example_adapter, [''dir/e.rec''])"
    by blast
  have "assert_nested_equal ''dir/e.rec'' (tf_output_types ?ds) (output_types example_adapter) =
    Inl (ShapeMismatch (DType ''float32'') (DType ''int32'') ''dir/e.rec'')"
    by (simp add: example_adapter_fields example_dataset_def output_types_def
        assert_nested_equal_def)
  with e have "e = ShapeMismatch (DType ''float32'') (DType ''int32'') ''dir/e.rec''"
    by simp
  with r shapes show ?thesis by simp
qed

subsection \<open>Frame and effects of a retrieval\<close>




subsection \<open>What the comparison reports\<close>

lemma flatten_list_concat: "flatten_list ts = concat (map flatten ts)"
  by (induction ts) simp_all

lemma assert_nested_equal_first:
  assumes "same_structure x y" and "x \<noteq> y"
  shows "\<exists>i < length (flatten x). take i (flatten x) = take i (flatten y) \<and>
           flatten x ! i \<noteq> flatten y ! i \<and>
           assert_nested_equal client_id x y =
             Inl (ShapeMismatch (flatten x ! i) (flatten y ! i) client_id)"
proof -
  from assms(1) have len: "length (flatten x) = length (flatten y)"
    by (rule same_structure_length)
  from assms have neq: "flatten x \<noteq> flatten y"
    using same_structure_flatten_eq(1) [of x y] by blast
  from assms(1) have "assert_nested_equal client_id x y =
      assert_leaves_equal client_id (zip (flatten x) (flatten y))"
    by (simp add: assert_nested_equal_def)
  with assert_leaves_equal_first [OF len neq, of client_id] show ?thesis
    by simp
qed

lemma assert_nested_equal_error_kind:
  assumes "assert_nested_equal client_id x y = Inl e"
  shows "e = StructureError \<or> (\<exists>a b. e = ShapeMismatch a b client_id \<and> a \<noteq> b)"
proof (cases "same_structure x y")
  case False
  with assms show ?thesis by (simp add: assert_nested_equal_def)
next
  case True
  from assms have "x \<noteq> y"
    using assert_nested_equal_Inr_iff [of client_id x y] by auto
  from assert_nested_equal_first [OF True this, of client_id] assms show ?thesis
    by auto
qed

text \<open>
  C4. The comparison of a client's signature with the reference first tests that the two
  structures have the same nesting structure, and raises the structure error when they do
  not. Otherwise it flattens both, depth first and left to right, and compares the leaves
  position by position: when the structures differ, it raises a mismatch that carries the
  client id and the two leaves of the first position where the flat lists differ. So a
  retrieval whose dataset disagrees with the reference in its type or shape signature
  raises: the structure error, or a mismatch naming the client and two unequal leaves.
\<close>

theorem mismatch_reported_at_first_difference:
  "(\<not> same_structure x y \<longrightarrow> assert_nested_equal client_id x y = Inl StructureError) \<and>
   (same_structure x y \<and> x \<noteq> y \<longrightarrow>
      (\<exists>i < length (flatten x). take i (flatten x) = take i (flatten y) \<and>
         flatten x ! i \<noteq> flatten y ! i \<and>
         assert_nested_equal client_id x y =
           Inl (ShapeMismatch (flatten x ! i) (flatten y ! i) client_id))) \<and>
   flatten (Seq ts) = concat (map flatten ts) \<and>
   (call (self_create_tf_dataset_fn self) client_id w = (Inr ds, w') \<and>
    (tf_output_types ds \<noteq> output_types self \<or> tf_output_shapes ds \<noteq> output_shapes self) \<longrightarrow>
      (\<exists>e. create_tf_dataset_for_client self client_id w = (Inl e, self, w') \<and>
         (e = StructureError \<or> (\<exists>a b. e = ShapeMismatch a b client_id \<and> a \<noteq> b)) \<and>
         (assert_nested_equal client_id (tf_output_types ds) (output_types self) = Inl e \<or>
          tf_output_types ds = output_types self \<and>
          assert_nested_equal client_id (tf_output_shapes ds) (output_shapes self) = Inl e)))"
proof (intro conjI impI)
  assume "\<not> same_structure x y"
  then show "assert_nested_equal client_id x y = Inl StructureError"
    by (simp add: assert_nested_equal_def)
next
  assume "same_structure x y \<and> x \<noteq> y"
  then show "\<exists>i < length (flatten x). take i (flatten x) = take i (flatten y) \<and>
         flatten x ! i \<noteq> flatten y ! i \<and>
         assert_nested_equal client_id x y =
           Inl (ShapeMismatch (flatten x ! i) (flatten y ! i) client_id)"
    using assert_nested_equal_first [of x y client_id] by blast
next
  show "flatten (Seq ts) = concat (map flatten ts)"
    by (simp add: flatten_list_concat)
next
  assume a: "call (self_create_tf_dataset_fn self) client_id w = (Inr ds, w') \<and>
    (tf_output_types ds \<noteq> output_types self \<or> tf_output_shapes ds \<noteq> output_shapes self)"
  let ?t = "assert_nested_equal client_id (tf_output_types ds) (output_types self)"
  let ?s = "assert_nested_equal client_id (tf_output_shapes ds) (output_shapes self)"
  let ?goal = "\<exists>e. create_tf_dataset_for_client self client_id w = (Inl e, self, w') \<and>
         (e = StructureError \<or> (\<exists>a b. e = ShapeMismatch a b client_id \<and> a \<noteq> b)) \<and>
         (?t = Inl e \<or> tf_output_types ds = output_types self \<and> ?s = Inl e)"
  from a have run: "call (self_create_tf_dataset_fn self) client_id w = (Inr ds, w')" by simp
  show ?goal
  proof (cases "tf_output_types ds = output_types self")
    case False
    from assert_nested_equal_differ [OF False, of client_id]
    obtain e where e: "?t = Inl e" ..
    have "create_tf_dataset_for_client self client_id w = (Inl e, self, w')"
      using run e by (simp add: create_tf_dataset_for_client_def output_types_def)
    with e assert_nested_equal_error_kind [OF e] show ?thesis by blast
  next
    case True
    with a have "tf_output_shapes ds \<noteq> output_shapes self" by simp
    from assert_nested_equal_differ [OF this, of client_id]
    obtain e where e: "?s = Inl e" ..
    from True have "?t = Inr ()" by (simp add: assert_nested_equal_refl)
    then have "create_tf_dataset_for_client self client_id w = (Inl e, self, w')"
      using run e
      by (simp add: create_tf_dataset_for_client_def output_types_def output_shapes_def)
    with e True assert_nested_equal_error_kind [OF e] show ?thesis by blast
  qed
qed

theorem mismatch_reported_at_first_difference_witness:
  "assert_nested_equal ''z'' (Seq [Leaf (DType ''int32'')]) (Leaf (DType ''int32'')) =
     Inl StructureError \<and>
   assert_nested_equal ''z''
     (Seq [Leaf (DType ''a''), Seq [Leaf (DType ''b''), Leaf (DType ''c'')], Leaf (DType ''d'')])
     (Seq [Leaf (DType ''a''), Seq [Leaf (DType ''B''), Leaf (DType ''c'')], Leaf (DType ''D'')]) =
     Inl (ShapeMismatch (DType ''b'') (DType ''B'') ''z'') \<and>
   flatten (Seq [Leaf (DType ''a''), Seq [Leaf (DType ''b''), Leaf (DType ''c'')], Leaf (DType ''d'')]) =
     [DType ''a'', DType ''b'', DType ''c'', DType ''d''] \<and>
   create_tf_dataset_for_client example_adapter ''dir/d.rec'' [] =
     (Inl (ShapeMismatch (TensorShape [Wildcard, Known 4]) (TensorShape [Wildcard, Known 3])
        ''dir/d.rec''), example_adapter, [''dir/d.rec''])"
proof -
  let ?x = "Seq [Leaf (DType ''a''), Seq [Leaf (DType ''b''), Leaf (DType ''c'')], Leaf (DType ''d'')]"
  let ?y = "Seq [Leaf (DType ''a''), Seq [Leaf (DType ''B''), Leaf (DType ''c'')], Leaf (DType ''D'')]"
  let ?ds = "example_dataset ''dir/d.rec'' ''int32'' 4"
  have s1: "\<not> same_structure (Seq [Leaf (DType ''int32'')]) (Leaf (DType ''int32''))"
    by simp
  from mismatch_reported_at_first_difference
    [of "Seq [Leaf (DType ''int32'')]" "Leaf (DType ''int32'')" "''z''" "[]" example_adapter "[]"
      ?ds "[]"] s1
  have c1: "assert_nested_equal ''z'' (Seq [Leaf (DType ''int32'')]) (Leaf (DType ''int32'')) =
     Inl StructureError"
    by blast
  have c2: "assert_nested_equal ''z'' ?x ?y = Inl (ShapeMismatch (DType ''b'') (DType ''B'') ''z'')"
    by (simp add: assert_nested_equal_def)
  have c3: "flatten ?x = [DType ''a'', DType ''b'', DType ''c'', DType ''d'']"
    by simp
  have run: "call (self_create_tf_dataset_fn example_adapter) ''dir/d.rec'' [] =
      (Inr ?ds, [''dir/d.rec''])"
    by (simp add: example_adapter_fields example_parse_def)
  have sh: "tf_output_shapes ?ds \<noteq> output_shapes example_adapter"
    by (simp add: example_adapter_fields example_dataset_def output_shapes_def)
  have ty: "tf_output_types ?ds = output_types example_adapter"
    by (simp add: example_adapter_fields example_dataset_def output_types_def)
  from mismatch_reported_at_first_difference
    [of ?x ?y "''dir/d.rec''" "[]" example_adapter "[]" ?ds "[''dir/d.rec'']"] run sh
  obtain e where r: "create_tf_dataset_for_client example_adapter ''dir/d.rec'' [] =
      (Inl e, example_adapter, [''dir/d.rec''])"
    and k: "assert_nested_equal ''dir/d.rec'' (tf_output_types ?ds) (output_types example_adapter) = Inl e \<or>
          tf_output_types ?ds = output_types example_adapter \<and>
          assert_nested_equal ''dir/d.rec'' (tf_output_shapes ?ds) (output_shapes example_adapter) = Inl e"
    by blast
  have t: "assert_nested_equal ''dir/d.rec'' (tf_output_types ?ds) (output_types example_adapter) = Inr ()"
    using ty by (simp add: assert_nested_equal_refl)
  have s: "assert_nested_equal ''dir/d.rec'' (tf_output_shapes ?ds) (output_shapes example_adapter) =
      Inl (ShapeMismatch (TensorShape [Wildcard, Known 4]) (TensorShape [Wildcard, Known 3]) ''dir/d.rec'')"
    by (simp add: example_adapter_fields example_dataset_def output_shapes_def
        assert_nested_equal_def)
  from k t s have "e = ShapeMismatch (TensorShape [Wildcard, Known 4])
      (TensorShape [Wildcard, Known 3]) ''dir/d.rec''"
    by simp
  with r have c4: "create_tf_dataset_for_client example_adapter ''dir/d.rec'' [] =
     (Inl (ShapeMismatch (TensorShape [Wildcard, Known 4]) (TensorShape [Wildcard, Known 3])
        ''dir/d.rec''), example_adapter, [''dir/d.rec''])"
    by simp
  from c1 c2 c3 c4 show ?thesis by (intro conjI)
qed

subsection \<open>The directory factory\<close>

lemma update_fresh: "k \<notin> fst ` set al \<Longrightarrow> AList.update k v al = al @ [(k, v)]"
  by (induction al) auto

lemma foldl_update_distinct:
  "distinct fs \<Longrightarrow> set fs \<inter> fst ` set acc = {} \<Longrightarrow>
   foldl (\<lambda>d f. AList.update f (g f) d) acc fs = acc @ map (\<lambda>f. (f, g f)) fs"
proof (induction fs arbitrary: acc)
  case Nil
  then show ?case by simp
next
  case (Cons f fs)
  from Cons.prems have fresh: "f \<notin> fst ` set acc" by auto
  from Cons.prems have "set fs \<inter> fst ` set (acc @ [(f, g f)]) = {}" by auto
  with Cons.IH [of "acc @ [(f, g f)]"] Cons.prems fresh show ?case
    by (simp add: update_fresh)
qed

lemma foldl_update_map_of:
  "map_of (foldl (\<lambda>d f. AList.update f (g f) d) acc fs) k =
     (if k \<in> set fs then Some (g k) else map_of acc k)"
  by (induction fs arbitrary: acc) (simp_all add: update_conv')

lemma dict_keys_distinct:
  "distinct filenames \<Longrightarrow>
   map fst (client_ids_to_paths_dict os_path_join path filenames) = filenames"
  by (simp add: client_ids_to_paths_dict_def foldl_update_distinct comp_def)

lemma dict_lookup:
  "map_of (client_ids_to_paths_dict os_path_join path filenames) k =
     (if k \<in> set filenames then Some (os_path_join path k) else None)"
  by (simp add: client_ids_to_paths_dict_def foldl_update_map_of)

lemma init_Inr:
  assumes "init (PyList ids) (Callable f) w = (Inr self, w')"
  shows "self_client_ids self = ids \<and> self_create_tf_dataset_fn self = Callable f"
  using assms
  by (auto simp: init_def split: if_splits prod.splits sum.splits)

lemma create_from_dir_Inr:
  assumes "os_listdir path = Inr filenames"
    and "create_from_dir os_listdir os_path_join path fn w = (Inr self, w')"
  shows "self_client_ids self = map fst (client_ids_to_paths_dict os_path_join path filenames) \<and>
         (\<forall>k u. call (self_create_tf_dataset_fn self) k u =
            (if k \<in> set filenames then call fn (os_path_join path k) u
             else (Inl (KeyError k), u)))"
proof -
  let ?d = "client_ids_to_paths_dict os_path_join path filenames"
  let ?f = "\<lambda>id w. case map_of ?d id of
                      None \<Rightarrow> (Inl (KeyError id), w)
                    | Some p \<Rightarrow> call fn p w"
  from assms have "init (PyList (map fst ?d)) (Callable ?f) w = (Inr self, w')"
    by (simp add: create_from_dir_def Let_def)
  from init_Inr [OF this] show ?thesis
    by (simp add: dict_lookup)
qed

text \<open>
  C6. For a directory whose listing is a list of \<open>N\<close> distinct filenames,
  \<^verbatim>\<open>create_from_dir\<close> builds an object whose client ids are exactly these \<open>N\<close>
  filenames, and whose conversion function sends each of them to what the file-to-dataset
  constructor returns on the directory path joined with the filename. The object is built
  as soon as the probe of the first file returns a dataset. For an empty directory the
  list of client ids is empty and construction fails with the emptiness error.
\<close>

theorem create_from_dir_one_client_per_file:
  assumes "os_listdir path = Inr filenames" and "distinct filenames"
  shows "(filenames = [] \<longrightarrow>
            create_from_dir os_listdir os_path_join path fn w = (Inl ValueError_no_client_ids, w)) \<and>
         (\<forall>self w'. create_from_dir os_listdir os_path_join path fn w = (Inr self, w') \<longrightarrow>
            client_ids self = filenames \<and>
            length (client_ids self) = length filenames \<and>
            (\<forall>f \<in> set filenames. \<forall>u.
               call (self_create_tf_dataset_fn self) f u = call fn (os_path_join path f) u)) \<and>
         (\<forall>ds. filenames \<noteq> [] \<and>
               fst (call fn (os_path_join path (filenames ! 0)) w) = Inr ds \<longrightarrow>
            (\<exists>self w'. create_from_dir os_listdir os_path_join path fn w = (Inr self, w')))"
proof (intro conjI allI impI)
  assume "filenames = []"
  with assms(1) show "create_from_dir os_listdir os_path_join path fn w =
      (Inl ValueError_no_client_ids, w)"
    by (simp add: create_from_dir_def client_ids_to_paths_dict_def init_def Let_def)
next
  fix self w'
  assume r: "create_from_dir os_listdir os_path_join path fn w = (Inr self, w')"
  from create_from_dir_Inr [OF assms(1) r] assms(2)
  show "client_ids self = filenames"
    by (simp add: client_ids_def dict_keys_distinct)
  then show "length (client_ids self) = length filenames" by simp
  from create_from_dir_Inr [OF assms(1) r]
  show "\<forall>f \<in> set filenames. \<forall>u.
      call (self_create_tf_dataset_fn self) f u = call fn (os_path_join path f) u"
    by simp
next
  fix ds
  assume a: "filenames \<noteq> [] \<and> fst (call fn (os_path_join path (filenames ! 0)) w) = Inr ds"
  let ?d = "client_ids_to_paths_dict os_path_join path filenames"
  from assms(2) have keys: "map fst ?d = filenames" by (rule dict_keys_distinct)
  from a have "filenames ! 0 \<in> set filenames" by simp
  then have look: "map_of ?d (filenames ! 0) = Some (os_path_join path (filenames ! 0))"
    by (simp add: dict_lookup)
  obtain u where u: "call fn (os_path_join path (filenames ! 0)) w = (Inr ds, u)"
    using a by (cases "call fn (os_path_join path (filenames ! 0)) w") simp
  let ?f = "\<lambda>id w. case map_of ?d id of
                      None \<Rightarrow> (Inl (KeyError id), w)
                    | Some p \<Rightarrow> call fn p w"
  from assms(1) keys have "create_from_dir os_listdir os_path_join path fn w =
      init (PyList filenames) (Callable ?f) w"
    by (simp add: create_from_dir_def Let_def)
  moreover from a look u have "\<exists>self. init (PyList filenames) (Callable ?f) w = (Inr self, u)"
    by (simp add: init_def)
  ultimately show "\<exists>self w'. create_from_dir os_listdir os_path_join path fn w = (Inr self, w')"
    by auto
qed

theorem create_from_dir_one_client_per_file_witness:
  "create_from_dir example_listdir example_join ''empty'' (Callable example_parse) [] =
     (Inl ValueError_no_client_ids, []) \<and>
   (\<exists>self w'. create_from_dir example_listdir example_join ''dir'' (Callable example_parse) [] =
        (Inr self, w') \<and>
      client_ids self = [''a.rec'', ''b.rec''] \<and>
      length (client_ids self) = 2 \<and>
      call (self_create_tf_dataset_fn self) ''b.rec'' [] = example_parse ''dir/b.rec'' [])"
proof -
  have e: "example_listdir ''empty'' = Inr []"
    by (simp add: example_listdir_def)
  have d: "example_listdir ''dir'' = Inr [''a.rec'', ''b.rec'']"
    by (simp add: example_listdir_def)
  have e': "distinct ([] :: string list)" by simp
  have d': "distinct [''a.rec'', ''b.rec'']" by simp
  from create_from_dir_one_client_per_file
    [where os_listdir = example_listdir and path = "''empty''" and filenames = "[]"
       and os_path_join = example_join and fn = "Callable example_parse" and w = "[]"] e e'
  have c1: "create_from_dir example_listdir example_join ''empty'' (Callable example_parse) [] =
     (Inl ValueError_no_client_ids, [])"
    by blast
  note t = create_from_dir_one_client_per_file
    [where os_listdir = example_listdir and path = "''dir''"
       and filenames = "[''a.rec'', ''b.rec'']"
       and os_path_join = example_join and fn = "Callable example_parse" and w = "[]", OF d d']
  have "fst (call (Callable example_parse) (example_join ''dir'' ([''a.rec'', ''b.rec''] ! 0)) []) =
      Inr (example_dataset ''dir/a.rec'' ''int32'' 3)"
    by (simp add: example_join_def example_parse_def)
  with t obtain self w' where
    r: "create_from_dir example_listdir example_join ''dir'' (Callable example_parse) [] =
      (Inr self, w')"
    by blast
  with t have ids: "client_ids self = [''a.rec'', ''b.rec'']"
    and f: "\<forall>f \<in> set [''a.rec'', ''b.rec'']. \<forall>u.
       call (self_create_tf_dataset_fn self) f u =
         call (Callable example_parse) (example_join ''dir'' f) u"
    by blast+
  from f have "call (self_create_tf_dataset_fn self) ''b.rec'' [] =
      example_parse ''dir/b.rec'' []"
    by (simp add: example_join_def)
  with r ids c1 show ?thesis by auto
qed

lemma example_create_from_dir:
  "\<exists>self. create_from_dir example_listdir example_join ''dir'' (Callable example_parse) [] =
      (Inr self, [''dir/a.rec''])"
  by (simp add: create_from_dir_def Let_def client_ids_to_paths_dict_def init_def
      example_listdir_def example_join_def example_parse_def)

text \<open>
  C8. On an object built by \<^verbatim>\<open>create_from_dir\<close>, retrieving an identifier that is not
  one of the listed filenames raises the \<^verbatim>\<open>KeyError\<close> of the dictionary lookup. The
  world is unchanged: the file-to-dataset constructor is not called, and nothing is
  compared.
\<close>

theorem unlisted_client_raises_KeyError:
  assumes "os_listdir path = Inr filenames"
    and "create_from_dir os_listdir os_path_join path fn w0 = (Inr self, w1)"
    and "client_id \<notin> set filenames"
  shows "create_tf_dataset_for_client self client_id w =
           (Inl (Propagated (KeyError client_id)), self, w)"
proof -
  from create_from_dir_Inr [OF assms(1,2)] assms(3)
  have "call (self_create_tf_dataset_fn self) client_id w = (Inl (KeyError client_id), w)"
    by simp
  then show ?thesis by (simp add: create_tf_dataset_for_client_def)
qed

theorem unlisted_client_raises_KeyError_witness:
  "\<exists>self. create_from_dir example_listdir example_join ''dir'' (Callable example_parse) [] =
       (Inr self, [''dir/a.rec'']) \<and>
     ''dir/a.rec'' \<notin> set [''a.rec'', ''b.rec''] \<and>
     fst (example_parse ''dir/a.rec'' []) = Inr (example_dataset ''dir/a.rec'' ''int32'' 3) \<and>
     create_tf_dataset_for_client self ''dir/a.rec'' [] =
       (Inl (Propagated (KeyError ''dir/a.rec'')), self, [])"
proof -
  from example_create_from_dir obtain self where
    r: "create_from_dir example_listdir example_join ''dir'' (Callable example_parse) [] =
      (Inr self, [''dir/a.rec''])" ..
  have d: "example_listdir ''dir'' = Inr [''a.rec'', ''b.rec'']"
    by (simp add: example_listdir_def)
  have n: "''dir/a.rec'' \<notin> set [''a.rec'', ''b.rec'']" by simp
  have p: "fst (example_parse ''dir/a.rec'' []) = Inr (example_dataset ''dir/a.rec'' ''int32'' 3)"
    by (simp add: example_parse_def)
  from unlisted_client_raises_KeyError [OF d r n, of "[]"] r n p show ?thesis by blast
qed

subsection \<open>Wildcard dimensions and the leaf comparison\<close>













subsection \<open>What a retrieval changes, and what it validates\<close>










end
